theory Spec2Isabelle
  imports Complex_Main
begin

section \<open>Film map application: record extraction and geocode lookup\<close>

text \<open>
  A shallow embedding of \<^verbatim>\<open>film_map_app.py\<close>. The input of the extractor is the
  element tree that \<^verbatim>\<open>ET.parse(...).getroot()\<close> delivers; text is a list of
  characters, every character an (ASCII) code point. Python exceptions are values of
  \<open>py_exception\<close>, and a computation that may raise returns \<open>py_exception + 'a\<close>.
\<close>

subsection \<open>Element trees (\<^verbatim>\<open>xml.etree.ElementTree\<close>)\<close>

text \<open>
  A qualified name \<^verbatim>\<open>{uri}local\<close> is the pair of its namespace and its local name.
  \<open>text_of\<close> is the attribute \<^verbatim>\<open>.text\<close>: \<open>None\<close> for an element without
  character data.
\<close>

type_synonym qname = "string \<times> string"

datatype element =
  Element (tag: qname) (attrib: "(qname \<times> string) list") (text_of: "string option")
    (children: "element list")

definition ss :: string where
  "ss = ''urn:schemas-microsoft-com:office:spreadsheet''"

text \<open>All proper descendants in document order, as \<^verbatim>\<open>.//\<close> walks them.\<close>

fun descendants :: "element \<Rightarrow> element list" where
  "descendants (Element t a x cs) = concat (map (\<lambda>c. c # descendants c) cs)"

definition findall_desc :: "qname \<Rightarrow> element \<Rightarrow> element list" where
  \<comment> \<open>\<^verbatim>\<open>e.findall('.//ss:T', namespaces)\<close>\<close>
  "findall_desc t e = filter (\<lambda>c. tag c = t) (descendants e)"

definition find_desc :: "qname \<Rightarrow> element \<Rightarrow> element option" where
  \<comment> \<open>\<^verbatim>\<open>e.find('.//ss:T', namespaces)\<close>\<close>
  "find_desc t e = (case findall_desc t e of [] \<Rightarrow> None | c # _ \<Rightarrow> Some c)"

definition findall_child :: "qname \<Rightarrow> element \<Rightarrow> element list" where
  \<comment> \<open>\<^verbatim>\<open>e.findall('ss:T', namespaces)\<close>\<close>
  "findall_child t e = filter (\<lambda>c. tag c = t) (children e)"

definition find_child :: "qname \<Rightarrow> element \<Rightarrow> element option" where
  \<comment> \<open>\<^verbatim>\<open>e.find('ss:T', namespaces)\<close>\<close>
  "find_child t e = List.find (\<lambda>c. tag c = t) (children e)"

definition get_attr :: "element \<Rightarrow> qname \<Rightarrow> string option" where
  \<comment> \<open>\<^verbatim>\<open>e.get(key)\<close>\<close>
  "get_attr e k = map_of (attrib e) k"

subsection \<open>Cleaning of the location text (line 50)\<close>

text \<open>
  \<^verbatim>\<open>re.sub('<[^>]+>', ', ', s)\<close>: scanning from the left, a \<^verbatim>\<open><\<close> followed by at
  least one character other than \<^verbatim>\<open>>\<close> and then a \<^verbatim>\<open>>\<close> is replaced by
  comma and space; the characters of the greedy run are all different from
  \<^verbatim>\<open>>\<close>, so backtracking never finds another match at the same position.
\<close>

function re_sub_tags :: "string \<Rightarrow> string" where
  "re_sub_tags [] = []"
| "re_sub_tags (c # cs) =
     (if c = CHR ''<'' \<and> takeWhile (\<lambda>d. d \<noteq> CHR ''>'') cs \<noteq> []
         \<and> dropWhile (\<lambda>d. d \<noteq> CHR ''>'') cs \<noteq> []
      then '', '' @ re_sub_tags (tl (dropWhile (\<lambda>d. d \<noteq> CHR ''>'') cs))
      else c # re_sub_tags cs)"
  by pat_completeness auto
termination
proof (relation "measure length")
  fix c :: char and cs :: string
  have "length (tl (dropWhile (\<lambda>d. d \<noteq> CHR ''>'') cs)) \<le> length cs"
    using length_dropWhile_le [of "\<lambda>d. d \<noteq> CHR ''>''" cs] by simp
  then show "(tl (dropWhile (\<lambda>d. d \<noteq> CHR ''>'') cs), c # cs) \<in> measure length"
    by simp
qed simp_all

text \<open>\<^verbatim>\<open>.replace(', ,', ', ')\<close>: every occurrence, left to right, without overlap.\<close>

fun replace_comma :: "string \<Rightarrow> string" where
  "replace_comma (a # b # c # cs) =
     (if a = CHR '','' \<and> b = CHR '' '' \<and> c = CHR '',''
      then '', '' @ replace_comma cs
      else a # replace_comma (b # c # cs))"
| "replace_comma cs = cs"

definition strip :: "char set \<Rightarrow> string \<Rightarrow> string" where
  \<comment> \<open>\<^verbatim>\<open>s.strip(chars)\<close>\<close>
  "strip P s = rev (dropWhile (\<lambda>c. c \<in> P) (rev (dropWhile (\<lambda>c. c \<in> P) s)))"

definition clean_location_text :: "string \<Rightarrow> string" where
  "clean_location_text s = strip {CHR '','', CHR '' ''} (replace_comma (re_sub_tags s))"

subsection \<open>The built-in \<^verbatim>\<open>float\<close> on text (lines 64 and 65)\<close>

text \<open>
  \<^verbatim>\<open>float(s)\<close> strips white space, reads an optional sign and then either
  \<^verbatim>\<open>inf\<close>, \<^verbatim>\<open>infinity\<close> or \<^verbatim>\<open>nan\<close> in any letter case, or a decimal number:
  digits with single underscores between them, an optional point, an optional exponent.
  Anything else raises \<^verbatim>\<open>ValueError\<close>. A finite value is kept as the exact decimal
  (standing for the binary64 number nearest to it); a decimal that rounds beyond the
  largest binary64 number is an infinity.
\<close>

datatype py_exception = ValueError | IndexError | AttributeError | TypeError

datatype pyfloat = Finite real | Infinity bool | NaN

definition isfinite :: "pyfloat \<Rightarrow> bool" where
  \<comment> \<open>\<^verbatim>\<open>math.isfinite\<close>\<close>
  "isfinite x = (case x of Finite _ \<Rightarrow> True | _ \<Rightarrow> False)"

definition isspace :: "char \<Rightarrow> bool" where
  \<comment> \<open>the white space that \<^verbatim>\<open>float\<close> strips: tab to carriage return, and the space\<close>
  "isspace c = (let n = (of_char c :: nat) in (9 \<le> n \<and> n \<le> 13) \<or> n = 32)"

definition isdigit :: "char \<Rightarrow> bool" where
  "isdigit c = (let n = (of_char c :: nat) in 48 \<le> n \<and> n \<le> 57)"

definition lower :: "char \<Rightarrow> char" where
  "lower c = (let n = (of_char c :: nat) in if 65 \<le> n \<and> n \<le> 90 then char_of (n + 32) else c)"

text \<open>After a digit: the rest of a \<^verbatim>\<open>digitpart\<close>, that is \<^verbatim>\<open>(["_"] digit)*\<close>.\<close>

fun digitpart_tail :: "string \<Rightarrow> string \<times> string" where
  "digitpart_tail [] = ([], [])"
| "digitpart_tail [c] = (if isdigit c then ([c], []) else ([], [c]))"
| "digitpart_tail (c # d # cs) =
     (if isdigit c then (let (ds, r) = digitpart_tail (d # cs) in (c # ds, r))
      else if c = CHR ''_'' \<and> isdigit d then (let (ds, r) = digitpart_tail cs in (d # ds, r))
      else ([], c # d # cs))"

text \<open>An optional \<^verbatim>\<open>digitpart\<close>: its digits (none when absent) and the text after it.\<close>

definition digitpart :: "string \<Rightarrow> string \<times> string" where
  "digitpart s = (case s of [] \<Rightarrow> ([], [])
     | c # cs \<Rightarrow> if isdigit c then (let (ds, r) = digitpart_tail cs in (c # ds, r)) else ([], s))"

definition digits_value :: "string \<Rightarrow> nat" where
  "digits_value ds = foldl (\<lambda>n c. 10 * n + (of_char c - 48)) 0 ds"

definition sign_split :: "string \<Rightarrow> bool \<times> string" where
  \<comment> \<open>an optional sign: whether it is a minus, and the text after it\<close>
  "sign_split s = (case s of [] \<Rightarrow> (False, [])
     | c # cs \<Rightarrow> if c = CHR ''-'' then (True, cs) else if c = CHR ''+'' then (False, cs)
                else (False, s))"

text \<open>The exponent: absent (value 0), well formed, or malformed.\<close>

definition exponent :: "string \<Rightarrow> int option" where
  "exponent s = (case s of [] \<Rightarrow> Some 0
     | c # cs \<Rightarrow>
         if lower c = CHR ''e'' then
           (let (neg, r) = sign_split cs; (ds, r') = digitpart r
            in if ds \<noteq> [] \<and> r' = [] then
                 Some (if neg then - int (digits_value ds) else int (digits_value ds))
               else None)
         else None)"

definition scale10 :: "real \<Rightarrow> int \<Rightarrow> real" where
  "scale10 m e = (if 0 \<le> e then m * 10 ^ nat e else m / 10 ^ nat (- e))"

definition round_binary64 :: "bool \<Rightarrow> real \<Rightarrow> pyfloat" where
  \<comment> \<open>sign and magnitude; from \<open>2^1024 - 2^970\<close> on the nearest binary64 is infinite\<close>
  "round_binary64 neg v =
     (if 2 ^ 1024 - 2 ^ 970 \<le> v then Infinity neg else Finite (if neg then - v else v))"

definition floatnumber :: "bool \<Rightarrow> string \<Rightarrow> py_exception + pyfloat" where
  "floatnumber neg s =
     (let (ip, r) = digitpart s;
          (fp, r') = (case r of [] \<Rightarrow> ([], [])
                      | c # cs \<Rightarrow> if c = CHR ''.'' then digitpart cs else ([], r))
      in if ip = [] \<and> fp = [] then Inl ValueError
         else case exponent r' of
                None \<Rightarrow> Inl ValueError
              | Some e \<Rightarrow>
                  Inr (round_binary64 neg
                         (scale10 (real (digits_value (ip @ fp))) (e - int (length fp)))))"

definition py_float :: "string \<Rightarrow> py_exception + pyfloat" where
  "py_float s =
     (let (neg, r) = sign_split (rev (dropWhile isspace (rev (dropWhile isspace s))));
          w = map lower r
      in if w = ''inf'' \<or> w = ''infinity'' then Inr (Infinity neg)
         else if w = ''nan'' then Inr NaN
         else floatnumber neg r)"

text \<open>\<^verbatim>\<open>float(s) if s else None\<close>: absent or empty text is no coordinate.\<close>

definition float_if :: "string option \<Rightarrow> py_exception + pyfloat option" where
  "float_if s = (case s of None \<Rightarrow> Inr None
     | Some t \<Rightarrow> if t = [] then Inr None
                 else (case py_float t of Inl e \<Rightarrow> Inl e | Inr x \<Rightarrow> Inr (Some x)))"

subsection \<open>The record extractor (lines 19 to 86)\<close>

text \<open>One entry of \<^verbatim>\<open>locations_data\<close>; the data frame is the list of them, in order.\<close>

record location =
  Film :: "string option"
  Location_Display_Text :: string
  LATITUDE :: pyfloat
  LONGITUDE :: pyfloat
  Borough :: "string option"
  Neighborhood :: "string option"

text \<open>
  \<^verbatim>\<open>d = cell.find('ss:Data', namespaces); d.text if d is not None else default\<close>.
  The text of a \<^verbatim>\<open>Data\<close> element that is there but empty is \<open>None\<close>, not the default.
\<close>

definition data_text :: "element \<Rightarrow> string option \<Rightarrow> string option" where
  "data_text cell dflt = (case find_child (ss, ''Data'') cell of None \<Rightarrow> dflt | Some d \<Rightarrow> text_of d)"

text \<open>
  Lines 44 to 75, the body of the inner \<^verbatim>\<open>try\<close>, for a row of at least 13 cells.
  \<^verbatim>\<open>re.sub\<close> on \<open>None\<close> raises \<^verbatim>\<open>TypeError\<close>; \<^verbatim>\<open>float\<close> raises
  \<^verbatim>\<open>ValueError\<close>. The result is the record to append, if any.
\<close>

definition row_body :: "element list \<Rightarrow> py_exception + location option" where
  "row_body cells =
     (let film = data_text (cells ! 0) (Some ''N/A'') in
      case data_text (cells ! 8) (Some []) of
        None \<Rightarrow> Inl TypeError
      | Some raw \<Rightarrow>
          (let location_text = clean_location_text raw;
               lat_str = data_text (cells ! 9) None;
               lon_str = data_text (cells ! 10) None;
               borough = data_text (cells ! 11) (Some ''N/A'');
               neighborhood = data_text (cells ! 12) (Some ''N/A'')
           in case float_if lat_str of
                Inl e \<Rightarrow> Inl e
              | Inr lat \<Rightarrow>
                  (case float_if lon_str of
                     Inl e \<Rightarrow> Inl e
                   | Inr lon \<Rightarrow>
                       (case (lat, lon) of
                          (Some la, Some lo) \<Rightarrow>
                            if film \<noteq> Some ''N/A'' then
                              Inr (Some \<lparr>Film = film, Location_Display_Text = location_text,
                                         LATITUDE = la, LONGITUDE = lo, Borough = borough,
                                         Neighborhood = neighborhood\<rparr>)
                            else Inr None
                        | _ \<Rightarrow> Inr None))))"

definition cells_of :: "element \<Rightarrow> element list" where
  \<comment> \<open>line 41\<close>
  "cells_of row = findall_child (ss, ''Cell'') row"

definition caught :: "py_exception \<Rightarrow> bool" where
  \<comment> \<open>\<^verbatim>\<open>except (ValueError, IndexError, AttributeError): continue\<close>\<close>
  "caught e = (e = ValueError \<or> e = IndexError \<or> e = AttributeError)"

text \<open>
  One pass of the loop of line 40 over a row: \<open>Inr None\<close> when nothing is appended
  (fewer than 13 cells, a row the test of line 67 rejects, or an exception that line 76
  catches), \<open>Inr (Some r)\<close> when \<open>r\<close> is appended, \<open>Inl e\<close> when \<open>e\<close> leaves the
  loop.
\<close>

definition process_row :: "element \<Rightarrow> py_exception + location option" where
  "process_row row =
     (let cells = cells_of row in
      if 13 \<le> length cells then
        (case row_body cells of
           Inl e \<Rightarrow> if caught e then Inr None else Inl e
         | Inr r \<Rightarrow> Inr r)
      else Inr None)"

fun process_rows :: "element list \<Rightarrow> location list \<Rightarrow> py_exception + location list" where
  "process_rows [] locations_data = Inr locations_data"
| "process_rows (row # rows) locations_data =
     (case process_row row of
        Inl e \<Rightarrow> Inl e
      | Inr None \<Rightarrow> process_rows rows locations_data
      | Inr (Some r) \<Rightarrow> process_rows rows (locations_data @ [r]))"

text \<open>
  What the call does: it returns \<^verbatim>\<open>None\<close> (lines 32, 35, 38 and 82), it returns
  the data frame (line 80), or it reports an exception with \<^verbatim>\<open>st.error\<close> and then
  returns \<^verbatim>\<open>None\<close> (lines 84 to 86).
\<close>

datatype load_result = Return_None | Return_Frame "location list" | Error_Return_None py_exception

definition find_worksheet :: "element \<Rightarrow> element option" where
  \<comment> \<open>lines 26 to 30: the first worksheet of that name\<close>
  "find_worksheet tree_root =
     List.find (\<lambda>ws. get_attr ws (ss, ''Name'') = Some ''Full Map List'')
       (findall_desc (ss, ''Worksheet'') tree_root)"

definition load_table :: "element \<Rightarrow> load_result" where
  \<comment> \<open>lines 37 to 86\<close>
  "load_table table =
     (let rows = findall_desc (ss, ''Row'') table in
      if length rows \<le> 3 then Return_None
      else case process_rows (drop 3 rows) [] of
             Inl e \<Rightarrow> Error_Return_None e
           | Inr locations_data \<Rightarrow>
               if locations_data \<noteq> [] then Return_Frame locations_data else Return_None)"

definition load_and_parse_xml_data :: "element \<Rightarrow> load_result" where
  "load_and_parse_xml_data tree_root =
     (case find_worksheet tree_root of
        None \<Rightarrow> Return_None
      | Some worksheet \<Rightarrow>
          (case find_desc (ss, ''Table'') worksheet of
             None \<Rightarrow> Return_None
           | Some table \<Rightarrow> load_table table))"

text \<open>
  Derived notions for the statements below: the table that lines 26 to 35 select, the
  rows that the loop of line 40 visits, and the record that a row contributes.
\<close>

definition find_table :: "element \<Rightarrow> element option" where
  "find_table tree_root =
     (case find_worksheet tree_root of
        None \<Rightarrow> None
      | Some worksheet \<Rightarrow> find_desc (ss, ''Table'') worksheet)"

definition data_rows :: "element \<Rightarrow> element list" where
  "data_rows tree_root =
     (case find_table tree_root of
        None \<Rightarrow> []
      | Some table \<Rightarrow> drop 3 (findall_desc (ss, ''Row'') table))"

definition accepted :: "element \<Rightarrow> location option" where
  "accepted row = (case process_row row of Inr (Some r) \<Rightarrow> Some r | _ \<Rightarrow> None)"

subsection \<open>Geocode lookup (lines 88 to 109)\<close>

text \<open>
  The provider is outside the program. A call of \<^verbatim>\<open>_geolocator.geocode(query, timeout=10)\<close>
  returns a location, returns \<^verbatim>\<open>None\<close>, raises a \<^verbatim>\<open>GeocoderServiceError\<close> (a
  time-out is one), or raises something else; it takes some time. The \<open>provider\<close> gives
  reply and duration of a request from the number of requests sent before it and the query.
  The \<open>world\<close> holds the clock, in seconds, and the log of the requests sent, each with
  the time at which it left.
\<close>

datatype reply = Located real real | No_Match | Service_Error | Raises py_exception

type_synonym provider = "nat \<Rightarrow> string \<Rightarrow> reply \<times> real"

record world =
  clock :: real
  requests :: "(real \<times> string) list"

definition geocode :: "provider \<Rightarrow> string \<Rightarrow> world \<Rightarrow> reply \<times> world" where
  "geocode prov query w =
     (let (r, duration) = prov (length (requests w)) query
      in (r, w\<lparr>clock := clock w + duration, requests := requests w @ [(clock w, query)]\<rparr>))"

text \<open>
  \<^verbatim>\<open>geopy.extra.rate_limiter.RateLimiter\<close>: an object that remembers the time of its last
  call. Before a call it sleeps until \<open>min_delay_seconds\<close> have passed since then; a new
  object has no last call and does not sleep. On a service error it sleeps
  \<open>error_wait_seconds\<close> and tries again, \<open>max_retries\<close> times; after the last try
  it swallows the error and returns \<^verbatim>\<open>None\<close>. Other exceptions pass through.
\<close>

record rate_limiter =
  last_call :: "real option"

definition min_delay_seconds :: real where
  "min_delay_seconds = 1"

definition max_retries :: nat where
  "max_retries = 2"

definition error_wait_seconds :: real where
  "error_wait_seconds = 5"

definition RateLimiter :: rate_limiter where
  \<comment> \<open>the constructor\<close>
  "RateLimiter = \<lparr>last_call = None\<rparr>"

definition acquire_request_slot :: "rate_limiter \<Rightarrow> world \<Rightarrow> rate_limiter \<times> world" where
  "acquire_request_slot rl w =
     (case last_call rl of
        None \<Rightarrow> (rl\<lparr>last_call := Some (clock w)\<rparr>, w)
      | Some t \<Rightarrow>
          (let wait = min_delay_seconds - (clock w - t)
           in if wait \<le> 0 then (rl\<lparr>last_call := Some (clock w)\<rparr>, w)
              else (rl\<lparr>last_call := Some (clock w + wait)\<rparr>, w\<lparr>clock := clock w + wait\<rparr>)))"

fun rate_limited ::
  "provider \<Rightarrow> nat \<Rightarrow> rate_limiter \<Rightarrow> string \<Rightarrow> world
     \<Rightarrow> (py_exception + (real \<times> real) option) \<times> world" where
  "rate_limited prov retries rl query w =
     (let (rl', w1) = acquire_request_slot rl w;
          (r, w2) = geocode prov query w1
      in case r of
           Located lat lon \<Rightarrow> (Inr (Some (lat, lon)), w2)
         | No_Match \<Rightarrow> (Inr None, w2)
         | Raises e \<Rightarrow> (Inl e, w2)
         | Service_Error \<Rightarrow>
             (case retries of
                0 \<Rightarrow> (Inr None, w2)
              | Suc n \<Rightarrow>
                  rate_limited prov n rl' query (w2\<lparr>clock := clock w2 + error_wait_seconds\<rparr>)))"

text \<open>What the sidebar shows (lines 105 and 108).\<close>

datatype advisory = Location_not_found string | Geocoding_error string py_exception

type_synonym lookup = "(real \<times> real) option \<times> advisory list"

definition geocode_location :: "provider \<Rightarrow> string \<Rightarrow> world \<Rightarrow> lookup \<times> world" where
  \<comment> \<open>the body, lines 97 to 109; line 100 makes a new limiter in every call\<close>
  "geocode_location geolocator query w =
     (if query = [] then ((None, []), w)
      else case rate_limited geolocator max_retries RateLimiter query w of
             (Inr (Some c), w') \<Rightarrow> ((Some c, []), w')
           | (Inr None, w') \<Rightarrow> ((None, [Location_not_found query]), w')
           | (Inl e, w') \<Rightarrow> ((None, [Geocoding_error query e]), w'))"

text \<open>
  \<^verbatim>\<open>@st.cache_data\<close> (line 94): the outcome of a call is stored under its arguments,
  here the query alone, since a parameter whose name starts with an underscore is left out
  of the key; a later call with a stored key returns the stored outcome and does not run
  the body. The store lives as long as the process.
\<close>

type_synonym geocode_cache = "string \<rightharpoonup> lookup"

definition cached_geocode_location ::
  "provider \<Rightarrow> string \<Rightarrow> geocode_cache \<times> world \<Rightarrow> lookup \<times> geocode_cache \<times> world" where
  "cached_geocode_location geolocator query s =
     (case fst s query of
        Some r \<Rightarrow> (r, s)
      | None \<Rightarrow>
          (let (r, w') = geocode_location geolocator query (snd s)
           in (r, (fst s)(query \<mapsto> r), w')))"

text \<open>A session: lookups one after the other, each starting where the last one ended.\<close>

fun lookups :: "provider \<Rightarrow> string list \<Rightarrow> geocode_cache \<times> world \<Rightarrow> geocode_cache \<times> world" where
  "lookups geolocator [] s = s"
| "lookups geolocator (query # queries) s =
     lookups geolocator queries (snd (cached_geocode_location geolocator query s))"

subsection \<open>The page script (lines 111 to 198)\<close>

text \<open>
  One run of the script. The map library is outside the program: \<open>make_marker\<close> stands
  for the construction of a marker from a row of the data frame (lines 150 to 175), which
  may raise. The script stops when the extractor returned \<^verbatim>\<open>None\<close> (lines 120 to
  124); otherwise it looks the query up, plots the rows and shows the table when asked to.
  The page keeps the variable \<^verbatim>\<open>data_df\<close> beside what is displayed.
\<close>

text \<open>
  The centre of the map is the list \<^verbatim>\<open>DEFAULT_CENTER\<close> or the tuple that the lookup
  returned; a list and a tuple are never equal (line 184).
\<close>

datatype center = List_of "real \<times> real" | Tuple_of "real \<times> real"

definition DEFAULT_CENTER :: center where
  "DEFAULT_CENTER = List_of (40.7128, - 74.0060)"

definition DEFAULT_ZOOM :: nat where
  "DEFAULT_ZOOM = 11"

datatype 'm marker = Film_Marker 'm | Searched_Marker center string

record 'm page =
  data_df :: "location list"
  map_center :: center
  map_zoom :: nat
  markers :: "'m marker list"
  count :: nat
  plot_warnings :: "(nat \<times> py_exception) list"
  table :: "location list option"

text \<open>Lines 126 to 137: the search moves the centre of the map, and nothing else.\<close>

definition search ::
  "provider \<Rightarrow> string \<Rightarrow> geocode_cache \<times> world \<Rightarrow> 'm page \<Rightarrow> 'm page \<times> geocode_cache \<times> world" where
  "search geolocator search_query s pg =
     (if search_query \<noteq> [] then
        (case cached_geocode_location geolocator search_query s of
           ((Some coords, _), s') \<Rightarrow> (pg\<lparr>map_center := Tuple_of coords, map_zoom := 14\<rparr>, s')
         | ((None, _), s') \<Rightarrow> (pg, s'))
      else (pg, s))"

text \<open>Lines 148 to 179: the loop over \<^verbatim>\<open>data_df.iterrows()\<close>, the index counting up.\<close>

fun plot_rows ::
  "(location \<Rightarrow> py_exception + 'm) \<Rightarrow> nat \<Rightarrow> location list \<Rightarrow> 'm page \<Rightarrow> 'm page" where
  "plot_rows make_marker idx [] pg = pg"
| "plot_rows make_marker idx (row # rows) pg =
     plot_rows make_marker (Suc idx) rows
       (case make_marker row of
          Inr m \<Rightarrow> pg\<lparr>markers := markers pg @ [Film_Marker m], count := count pg + 1\<rparr>
        | Inl e \<Rightarrow> pg\<lparr>plot_warnings := plot_warnings pg @ [(idx, e)]\<rparr>)"

definition render :: "(location \<Rightarrow> py_exception + 'm) \<Rightarrow> string \<Rightarrow> 'm page \<Rightarrow> 'm page" where
  \<comment> \<open>lines 143 to 194\<close>
  "render make_marker search_query pg =
     (let pg' = plot_rows make_marker 0 (data_df pg) pg
      in if map_center pg' \<noteq> DEFAULT_CENTER \<and> search_query \<noteq> [] then
           pg'\<lparr>markers := markers pg' @ [Searched_Marker (map_center pg') search_query]\<rparr>
         else pg')"

definition show_table :: "bool \<Rightarrow> 'm page \<Rightarrow> 'm page" where
  \<comment> \<open>lines 197 and 198\<close>
  "show_table checked pg = (if checked then pg\<lparr>table := Some (data_df pg)\<rparr> else pg)"

datatype 'm script_run = Stopped | Shown "'m page"

definition after_load :: "load_result \<Rightarrow> 'm script_run" where
  \<comment> \<open>lines 116 to 130 and 146: \<^verbatim>\<open>st.stop()\<close> after a load that returned \<^verbatim>\<open>None\<close>\<close>
  "after_load r =
     (case r of
        Return_Frame df \<Rightarrow>
          Shown \<lparr>data_df = df, map_center = DEFAULT_CENTER, map_zoom = DEFAULT_ZOOM,
                 markers = [], count = 0, plot_warnings = [], table = None\<rparr>
      | _ \<Rightarrow> Stopped)"

definition script ::
  "provider \<Rightarrow> (location \<Rightarrow> py_exception + 'm) \<Rightarrow> element \<Rightarrow> string \<Rightarrow> bool
     \<Rightarrow> geocode_cache \<times> world \<Rightarrow> 'm script_run \<times> geocode_cache \<times> world" where
  "script geolocator make_marker tree_root search_query checked s =
     (case after_load (load_and_parse_xml_data tree_root) of
        Stopped \<Rightarrow> (Stopped, s)
      | Shown pg \<Rightarrow>
          (let (pg1, s') = search geolocator search_query s pg
           in (Shown (show_table checked (render make_marker search_query pg1)), s')))"

subsection \<open>Example documents\<close>

text \<open>
  Builders for workbooks to run the extractor on: a cell holding a \<^verbatim>\<open>Data\<close>
  element with the given text (\<open>None\<close> for an empty element), a cell without one, a
  row, a workbook of one named worksheet with one table, and a row of 13 cells with the
  given film, location text, latitude and longitude.
\<close>

definition data_cell :: "string option \<Rightarrow> element" where
  "data_cell s = Element (ss, ''Cell'') [] None [Element (ss, ''Data'') [] s []]"

definition blank_cell :: element where
  "blank_cell = Element (ss, ''Cell'') [] None []"

definition mk_row :: "element list \<Rightarrow> element" where
  "mk_row cells = Element (ss, ''Row'') [] None cells"

definition workbook :: "string \<Rightarrow> element list \<Rightarrow> element" where
  "workbook name rows =
     Element (ss, ''Workbook'') [] None
       [Element (ss, ''Worksheet'') [((ss, ''Name''), name)] None
          [Element (ss, ''Table'') [] None rows]]"

definition film_row ::
  "string option \<Rightarrow> string option \<Rightarrow> string option \<Rightarrow> string option \<Rightarrow> element" where
  "film_row film loc lat lon =
     mk_row [data_cell film, blank_cell, blank_cell, blank_cell, blank_cell, blank_cell,
             blank_cell, blank_cell, data_cell loc, data_cell lat, data_cell lon,
             blank_cell, blank_cell]"

section \<open>Properties\<close>

subsection \<open>Unfolding sets for running the model on a given input\<close>

lemmas float_defs = py_float_def sign_split_def isspace_def lower_def floatnumber_def
  digitpart_def isdigit_def exponent_def digits_value_def scale10_def round_binary64_def
  float_if_def

lemmas xml_defs = findall_desc_def find_desc_def findall_child_def find_child_def get_attr_def
  data_cell_def blank_cell_def mk_row_def workbook_def film_row_def cells_of_def

lemmas load_defs = load_and_parse_xml_data_def find_worksheet_def load_table_def
  process_row_def row_body_def data_text_def caught_def clean_location_text_def strip_def

lemmas geo_defs = geocode_location_def cached_geocode_location_def geocode_def
  acquire_request_slot_def RateLimiter_def max_retries_def min_delay_seconds_def
  error_wait_seconds_def

subsection \<open>The loop over the rows\<close>

lemma process_rows_acc:
  "process_rows rows acc =
     (case process_rows rows [] of Inl e \<Rightarrow> Inl e | Inr xs \<Rightarrow> Inr (acc @ xs))"
proof (induction rows arbitrary: acc)
  case Nil
  show ?case by simp
next
  case (Cons row rows)
  show ?case
  proof (cases "process_row row")
    case (Inl e)
    then show ?thesis by simp
  next
    case (Inr r)
    show ?thesis
    proof (cases r)
      case None
      with Inr Cons.IH [of acc] show ?thesis by simp
    next
      case (Some x)
      with Inr Cons.IH [of "acc @ [x]"] Cons.IH [of "[x]"] show ?thesis
        by (simp split: sum.splits)
    qed
  qed
qed

lemma process_rows_map_filter:
  "process_rows rows [] = Inr recs \<Longrightarrow> recs = List.map_filter accepted rows"
proof (induction rows arbitrary: recs)
  case Nil
  then show ?case by (simp add: List.map_filter_simps)
next
  case (Cons row rows)
  show ?case
  proof (cases "process_row row")
    case (Inl e)
    with Cons.prems show ?thesis by simp
  next
    case (Inr r)
    show ?thesis
    proof (cases r)
      case None
      with Inr Cons show ?thesis by (simp add: List.map_filter_simps accepted_def)
    next
      case (Some x)
      with Inr Cons.prems have "process_rows rows [x] = Inr recs" by simp
      then obtain xs where xs: "process_rows rows [] = Inr xs" "recs = x # xs"
        using process_rows_acc [of rows "[x]"] by (auto split: sum.splits)
      with Inr Some Cons.IH [of xs] show ?thesis
        by (simp add: List.map_filter_simps accepted_def)
    qed
  qed
qed

lemma process_rows_skip:
  "process_row r = Inr None \<Longrightarrow> process_rows (A @ r # B) acc = process_rows (A @ B) acc"
  by (induction A arbitrary: acc) (auto split: sum.splits option.splits)

lemma map_filter_memD:
  "x \<in> set (List.map_filter f xs) \<Longrightarrow> \<exists>y\<in>set xs. f y = Some x"
  by (auto simp: List.map_filter_def)

lemma map_filter_drop_None:
  "f y = None \<Longrightarrow> List.map_filter f (A @ y # B) = List.map_filter f (A @ B)"
  by (simp add: List.map_filter_def)

lemma load_eq_table:
  "load_and_parse_xml_data d =
     (case find_table d of None \<Rightarrow> Return_None | Some t \<Rightarrow> load_table t)"
  by (simp add: load_and_parse_xml_data_def find_table_def split: option.splits)

lemma load_Return_FrameD:
  "load_and_parse_xml_data d = Return_Frame recs \<Longrightarrow>
     process_rows (data_rows d) [] = Inr recs \<and> recs \<noteq> []"
  by (auto simp: load_eq_table data_rows_def load_table_def Let_def
      split: option.splits if_splits sum.splits)

lemma load_frame_map_filter:
  "load_and_parse_xml_data d = Return_Frame recs \<Longrightarrow>
     recs = List.map_filter accepted (data_rows d)"
  by (rule process_rows_map_filter) (simp add: load_Return_FrameD)

lemma process_row_SomeD:
  assumes "process_row row = Inr (Some r)"
  shows "13 \<le> length (cells_of row)"
    and "Film r = data_text (cells_of row ! 0) (Some ''N/A'')"
    and "Film r \<noteq> Some ''N/A''"
    and "\<exists>raw. data_text (cells_of row ! 8) (Some []) = Some raw
           \<and> Location_Display_Text r = clean_location_text raw"
    and "\<exists>s. data_text (cells_of row ! 9) None = Some s \<and> s \<noteq> []
           \<and> py_float s = Inr (LATITUDE r)"
    and "\<exists>s. data_text (cells_of row ! 10) None = Some s \<and> s \<noteq> []
           \<and> py_float s = Inr (LONGITUDE r)"
  using assms
  by (auto simp: process_row_def row_body_def Let_def float_if_def
      split: if_splits sum.splits option.splits)

lemma accepted_SomeD: "accepted row = Some r \<Longrightarrow> process_row row = Inr (Some r)"
  by (auto simp: accepted_def split: sum.splits option.splits)

subsection \<open>The cache of lookups\<close>

lemma cached_stores:
  "cached_geocode_location g q s = (r, s1) \<Longrightarrow> fst s1 q = Some r"
  by (auto simp: cached_geocode_location_def split: option.splits prod.splits)

lemma cached_keeps:
  "fst s q = Some r \<Longrightarrow> fst (snd (cached_geocode_location g q' s)) q = Some r"
  by (auto simp: cached_geocode_location_def split: option.splits prod.splits)

lemma lookups_keep:
  "fst s q = Some r \<Longrightarrow> fst (lookups g qs s) q = Some r"
  by (induction qs arbitrary: s) (simp_all add: cached_keeps)

lemma cached_hit:
  "fst s q = Some r \<Longrightarrow> cached_geocode_location g q s = (r, s)"
  by (simp add: cached_geocode_location_def)

subsection \<open>The page script\<close>

lemma data_df_plot_rows: "data_df (plot_rows mk i rows pg) = data_df pg"
  by (induction rows arbitrary: i pg) (simp_all split: sum.splits)

lemma data_df_render: "data_df (render mk q pg) = data_df pg"
  by (simp add: render_def Let_def data_df_plot_rows)

lemma data_df_show_table: "data_df (show_table c pg) = data_df pg"
  by (simp add: show_table_def)

lemma data_df_search: "data_df (fst (search g q s pg)) = data_df pg"
  by (simp add: search_def split: prod.splits option.splits)

subsection \<open>Selecting the table\<close>

lemma find_worksheet_None:
  "\<forall>ws\<in>set (findall_desc (ss, ''Worksheet'') d). get_attr ws (ss, ''Name'') \<noteq> Some ''Full Map List''
     \<Longrightarrow> find_worksheet d = None"
  by (simp add: find_worksheet_def find_None_iff)

lemma script_Stopped:
  "load_and_parse_xml_data d = Return_None \<Longrightarrow> script g mk d q c s = (Stopped, s)"
  by (simp add: script_def after_load_def)

lemma load_table_drop:
  "load_table t =
     (if drop 3 (findall_desc (ss, ''Row'') t) = [] then Return_None
      else case process_rows (drop 3 (findall_desc (ss, ''Row'') t)) [] of
             Inl e \<Rightarrow> Error_Return_None e
           | Inr ld \<Rightarrow> if ld \<noteq> [] then Return_Frame ld else Return_None)"
  by (auto simp: load_table_def Let_def)

lemma find_table_workbook:
  "find_table (workbook ''Full Map List'' rows) = Some (Element (ss, ''Table'') [] None rows)"
  by (simp add: find_table_def find_worksheet_def xml_defs)

subsection \<open>Rows with a bad latitude\<close>

text \<open>
  The expression \<^verbatim>\<open>float(s) if s else None\<close> takes an absent or empty text and the
  text \<^verbatim>\<open>abc\<close> along different paths, and a row with such a latitude is passed over,
  the rows before and after it being treated as if it were not there, as long as line 50
  does not raise on it.
\<close>

lemma float_if_paths:
  "float_if None = Inr None \<and> float_if (Some []) = Inr None \<and> float_if (Some ''abc'') = Inl ValueError"
  by (simp add: float_defs)

lemma py_float_raises:
  "py_float s = Inl e \<Longrightarrow> e = ValueError"
  by (auto simp: py_float_def floatnumber_def Let_def split: prod.splits if_splits option.splits)

lemma float_if_raises:
  "float_if s = Inl e \<Longrightarrow> e = ValueError"
  by (auto simp: float_if_def dest: py_float_raises split: option.splits if_splits sum.splits)

lemma bad_latitude_row_skipped:
  assumes "data_text (cells_of row ! 8) (Some []) \<noteq> None"
    and "data_text (cells_of row ! 9) None \<in> {None, Some [], Some ''abc''}"
  shows "process_row row = Inr None"
    and "process_rows (A @ row # B) acc = process_rows (A @ B) acc"
proof -
  from assms(2) have lat: "float_if (data_text (cells_of row ! 9) None) = Inr None
      \<or> float_if (data_text (cells_of row ! 9) None) = Inl ValueError"
    using float_if_paths by auto
  from assms(1) obtain raw where raw: "data_text (cells_of row ! 8) (Some []) = Some raw"
    by auto
  show p: "process_row row = Inr None"
  proof (cases "13 \<le> length (cells_of row)")
    case False
    then show ?thesis by (simp add: process_row_def)
  next
    case True
    from lat show ?thesis
    proof
      assume "float_if (data_text (cells_of row ! 9) None) = Inl ValueError"
      with True raw show ?thesis
        by (simp add: process_row_def row_body_def caught_def)
    next
      assume n: "float_if (data_text (cells_of row ! 9) None) = Inr None"
      show ?thesis
      proof (cases "float_if (data_text (cells_of row ! 10) None)")
        case (Inl e)
        then have "e = ValueError" by (rule float_if_raises)
        with Inl True raw n show ?thesis
          by (simp add: process_row_def row_body_def caught_def)
      next
        case (Inr lon)
        with True raw n show ?thesis
          by (simp add: process_row_def row_body_def)
      qed
    qed
  qed
  then show "process_rows (A @ row # B) acc = process_rows (A @ B) acc"
    by (rule process_rows_skip)
qed

subsection \<open>Requests of a lookup\<close>

text \<open>
  Every lookup of a query that is not empty sends its first request at once, at the time
  at which the lookup starts, however short a time ago the request before it was sent.
\<close>

lemma requests_acquire: "requests (snd (acquire_request_slot rl w)) = requests w"
  by (simp add: acquire_request_slot_def Let_def split: option.splits)

lemma requests_geocode: "requests (snd (geocode g q w)) = requests w @ [(clock w, q)]"
  by (simp add: geocode_def split: prod.splits)

lemma requests_rate_limited:
  "\<exists>rest. requests (snd (rate_limited g n rl q w))
       = requests w @ (clock (snd (acquire_request_slot rl w)), q) # rest"
proof (induction n arbitrary: rl w)
  case 0
  obtain rl' w1 where a: "acquire_request_slot rl w = (rl', w1)"
    by (cases "acquire_request_slot rl w")
  obtain r w2 where b: "geocode g q w1 = (r, w2)"
    by (cases "geocode g q w1")
  have "requests w2 = requests w @ [(clock w1, q)]"
    using requests_geocode [of g q w1] requests_acquire [of rl w] a b by simp
  with a b show ?case
    by (cases r) (simp_all add: rate_limited.simps [of g 0])
next
  case (Suc n)
  obtain rl' w1 where a: "acquire_request_slot rl w = (rl', w1)"
    by (cases "acquire_request_slot rl w")
  obtain r w2 where b: "geocode g q w1 = (r, w2)"
    by (cases "geocode g q w1")
  have c: "requests w2 = requests w @ [(clock w1, q)]"
    using requests_geocode [of g q w1] requests_acquire [of rl w] a b by simp
  show ?case
  proof (cases r)
    case Service_Error
    from Suc.IH [of rl' "w2\<lparr>clock := clock w2 + error_wait_seconds\<rparr>"] c
    obtain rest where "requests (snd (rate_limited g n rl' q (w2\<lparr>clock := clock w2 + error_wait_seconds\<rparr>)))
        = requests w @ (clock w1, q) # rest"
      by auto
    with a b Service_Error show ?thesis
      by (simp add: rate_limited.simps [of g "Suc n"])
  qed (use a b c in \<open>simp_all add: rate_limited.simps [of g "Suc n"]\<close>)
qed

lemma lookup_sends_at_once:
  assumes "query \<noteq> []"
  shows "\<exists>rest. requests (snd (geocode_location g query w)) = requests w @ (clock w, query) # rest"
proof -
  from requests_rate_limited [of g max_retries RateLimiter query w]
  obtain rest where "requests (snd (rate_limited g max_retries RateLimiter query w))
      = requests w @ (clock w, query) # rest"
    by (auto simp: acquire_request_slot_def RateLimiter_def)
  with assms show ?thesis
    by (auto simp: geocode_location_def split: prod.splits sum.splits option.splits)
qed

section \<open>The claims\<close>

text \<open>
  C4. Cleaning turns \<^verbatim>\<open>Main St<br>Suite 4\<close> into \<^verbatim>\<open>Main St, Suite 4\<close> and
  \<^verbatim>\<open>,Main St,\<close> into \<^verbatim>\<open>Main St\<close>; and a document of three header rows and one
  data row with film Ghostbusters, latitude 40.7, longitude -74.0 and the location cell
  \<^verbatim>\<open>55 Central Park W<br>Manhattan\<close> yields exactly one record, whose display text is
  \<^verbatim>\<open>55 Central Park W, Manhattan\<close>.
\<close>

theorem cleaning_and_ghostbusters:
  "clean_location_text ''Main St<br>Suite 4'' = ''Main St, Suite 4''
   \<and> clean_location_text '',Main St,'' = ''Main St''
   \<and> load_and_parse_xml_data
        (workbook ''Full Map List''
           [mk_row [data_cell (Some ''Film Locations'')],
            mk_row [],
            mk_row [data_cell (Some ''Film''), data_cell (Some ''Year'')],
            film_row (Some ''Ghostbusters'') (Some ''55 Central Park W<br>Manhattan'')
              (Some ''40.7'') (Some ''-74.0'')])
       = Return_Frame
           [\<lparr>Film = Some ''Ghostbusters'',
             Location_Display_Text = ''55 Central Park W, Manhattan'',
             LATITUDE = Finite 40.7, LONGITUDE = Finite (- 74),
             Borough = Some ''N/A'', Neighborhood = Some ''N/A''\<rparr>]"
  by (simp add: load_defs xml_defs float_defs)

text \<open>
  C1, as stated: every record of a result has a film that is not missing and a finite
  latitude and longitude. It fails on a document whose first data row carries the
  latitude \<^verbatim>\<open>nan\<close> and the longitude \<^verbatim>\<open>inf\<close>, which \<^verbatim>\<open>float\<close> accepts, and
  whose second data row has an empty \<^verbatim>\<open>Data\<close> element as its film cell: both rows
  become records, the first with coordinates that are not finite, the second without a
  film.
\<close>

theorem nonfinite_or_filmless_record_counterexample:
  "load_and_parse_xml_data
     (workbook ''Full Map List''
        [mk_row [], mk_row [], mk_row [],
         film_row (Some ''Heat'') (Some ''Pier 1'') (Some ''nan'') (Some ''inf''),
         film_row None (Some ''Pier 2'') (Some ''40.7'') (Some ''-74.0'')])
     = Return_Frame
         [\<lparr>Film = Some ''Heat'', Location_Display_Text = ''Pier 1'',
           LATITUDE = NaN, LONGITUDE = Infinity False,
           Borough = Some ''N/A'', Neighborhood = Some ''N/A''\<rparr>,
          \<lparr>Film = None, Location_Display_Text = ''Pier 2'',
           LATITUDE = Finite 40.7, LONGITUDE = Finite (- 74),
           Borough = Some ''N/A'', Neighborhood = Some ''N/A''\<rparr>]
   \<and> \<not> isfinite NaN \<and> \<not> isfinite (Infinity False)"
  by (simp add: load_defs xml_defs float_defs isfinite_def)

text \<open>
  C1, amended: every record of a result has a film other than the sentinel \<^verbatim>\<open>N/A\<close>,
  and its latitude and longitude are what \<^verbatim>\<open>float\<close> made of the text, not empty, of
  the tenth and eleventh cell of one data row of at least 13 cells; and a row whose
  latitude or longitude text is absent or empty contributes no record.
\<close>

theorem records_have_coordinates:
  "(load_and_parse_xml_data d = Return_Frame recs \<longrightarrow>
      (\<forall>r\<in>set recs. Film r \<noteq> Some ''N/A'' \<and>
         (\<exists>row\<in>set (data_rows d). 13 \<le> length (cells_of row) \<and>
            (\<exists>s. data_text (cells_of row ! 9) None = Some s \<and> s \<noteq> []
                 \<and> py_float s = Inr (LATITUDE r)) \<and>
            (\<exists>s. data_text (cells_of row ! 10) None = Some s \<and> s \<noteq> []
                 \<and> py_float s = Inr (LONGITUDE r)))))
   \<and> (data_text (cells_of row ! 9) None \<in> {None, Some []}
        \<or> data_text (cells_of row ! 10) None \<in> {None, Some []} \<longrightarrow>
      accepted row = None)"
proof (intro conjI impI ballI)
  fix r
  assume "load_and_parse_xml_data d = Return_Frame recs" and "r \<in> set recs"
  then have "r \<in> set (List.map_filter accepted (data_rows d))"
    using load_frame_map_filter [of d recs] by simp
  then obtain row where "row \<in> set (data_rows d)" and "accepted row = Some r"
    using map_filter_memD [of r accepted "data_rows d"] by auto
  then have row: "row \<in> set (data_rows d)" "process_row row = Inr (Some r)"
    by (simp_all add: accepted_SomeD)
  from process_row_SomeD(3) [OF row(2)] show "Film r \<noteq> Some ''N/A''" .
  from row(1) process_row_SomeD(1,5,6) [OF row(2)]
  show "\<exists>row\<in>set (data_rows d). 13 \<le> length (cells_of row) \<and>
            (\<exists>s. data_text (cells_of row ! 9) None = Some s \<and> s \<noteq> []
                 \<and> py_float s = Inr (LATITUDE r)) \<and>
            (\<exists>s. data_text (cells_of row ! 10) None = Some s \<and> s \<noteq> []
                 \<and> py_float s = Inr (LONGITUDE r))"
    by blast
next
  assume miss: "data_text (cells_of row ! 9) None \<in> {None, Some []}
        \<or> data_text (cells_of row ! 10) None \<in> {None, Some []}"
  show "accepted row = None"
  proof (cases "accepted row")
    case None
    then show ?thesis .
  next
    case (Some r)
    then have "process_row row = Inr (Some r)" by (rule accepted_SomeD)
    from process_row_SomeD(5,6) [OF this] miss show ?thesis by fastforce
  qed
qed

theorem records_have_coordinates_witness:
  "load_and_parse_xml_data
     (workbook ''Full Map List''
        [mk_row [], mk_row [], mk_row [],
         film_row (Some ''Heat'') (Some ''Pier 1'') (Some ''40.7'') (Some ''-74.0'')])
     = Return_Frame
         [\<lparr>Film = Some ''Heat'', Location_Display_Text = ''Pier 1'',
           LATITUDE = Finite 40.7, LONGITUDE = Finite (- 74),
           Borough = Some ''N/A'', Neighborhood = Some ''N/A''\<rparr>]
   \<and> data_text (cells_of (film_row (Some ''Heat'') (Some ''Pier 1'') (Some ''40.7'') None) ! 10)
        None = None
   \<and> accepted (film_row (Some ''Heat'') (Some ''Pier 1'') (Some ''40.7'') None) = None"
proof -
  let ?d = "workbook ''Full Map List''
        [mk_row [], mk_row [], mk_row [],
         film_row (Some ''Heat'') (Some ''Pier 1'') (Some ''40.7'') (Some ''-74.0'')]"
  let ?r = "\<lparr>Film = Some ''Heat'', Location_Display_Text = ''Pier 1'',
           LATITUDE = Finite 40.7, LONGITUDE = Finite (- 74),
           Borough = Some ''N/A'', Neighborhood = Some ''N/A''\<rparr>"
  let ?row = "film_row (Some ''Heat'') (Some ''Pier 1'') (Some ''40.7'') None"
  have h: "load_and_parse_xml_data ?d = Return_Frame [?r]"
    by (simp add: load_defs xml_defs float_defs)
  have m: "data_text (cells_of ?row ! 10) None = None"
    by (simp add: data_text_def xml_defs)
  from records_have_coordinates [of ?d "[?r]" ?row] m have "accepted ?row = None"
    by blast
  with h m show ?thesis by blast
qed

text \<open>
  C10. A data row whose film cell holds exactly the text \<^verbatim>\<open>N/A\<close> contributes no
  record, whatever its latitude and longitude: the result of a document with such a row
  is the result of the other data rows, and no record of any result has the film
  \<^verbatim>\<open>N/A\<close>, the value that line 45 gives to a row without a film.
\<close>

theorem sentinel_film_excluded:
  "(find_child (ss, ''Data'') (cells_of row ! 0) = Some dat \<and> text_of dat = Some ''N/A''
      \<longrightarrow> accepted row = None
        \<and> (load_and_parse_xml_data d = Return_Frame recs \<and> data_rows d = A @ row # B
             \<longrightarrow> recs = List.map_filter accepted (A @ B)))
   \<and> (load_and_parse_xml_data d = Return_Frame recs \<longrightarrow>
        (\<forall>r\<in>set recs. Film r \<noteq> Some ''N/A''))"
proof (intro conjI impI ballI)
  assume f: "find_child (ss, ''Data'') (cells_of row ! 0) = Some dat \<and> text_of dat = Some ''N/A''"
  show acc: "accepted row = None"
  proof (cases "accepted row")
    case None
    then show ?thesis .
  next
    case (Some r)
    then have p: "process_row row = Inr (Some r)" by (rule accepted_SomeD)
    from f have "data_text (cells_of row ! 0) (Some ''N/A'') = Some ''N/A''"
      by (simp add: data_text_def)
    with process_row_SomeD(2,3) [OF p] show ?thesis by simp
  qed
  assume "load_and_parse_xml_data d = Return_Frame recs \<and> data_rows d = A @ row # B"
  then have "recs = List.map_filter accepted (A @ row # B)"
    using load_frame_map_filter [of d recs] by simp
  with acc show "recs = List.map_filter accepted (A @ B)"
    by (simp add: map_filter_drop_None)
next
  fix r
  assume "load_and_parse_xml_data d = Return_Frame recs" and "r \<in> set recs"
  then have "r \<in> set (List.map_filter accepted (data_rows d))"
    using load_frame_map_filter [of d recs] by simp
  then obtain row where "accepted row = Some r"
    using map_filter_memD [of r accepted "data_rows d"] by auto
  then have "process_row row = Inr (Some r)" by (rule accepted_SomeD)
  from process_row_SomeD(3) [OF this] show "Film r \<noteq> Some ''N/A''" .
qed

theorem sentinel_film_excluded_witness:
  "load_and_parse_xml_data
     (workbook ''Full Map List''
        [mk_row [], mk_row [], mk_row [],
         film_row (Some ''N/A'') (Some ''Pier 1'') (Some ''40.7'') (Some ''-74.0''),
         film_row (Some ''Heat'') (Some ''Pier 2'') (Some ''40.8'') (Some ''-73.9'')])
     = Return_Frame
         [\<lparr>Film = Some ''Heat'', Location_Display_Text = ''Pier 2'',
           LATITUDE = Finite 40.8, LONGITUDE = Finite (- 73.9),
           Borough = Some ''N/A'', Neighborhood = Some ''N/A''\<rparr>]
   \<and> accepted (film_row (Some ''N/A'') (Some ''Pier 1'') (Some ''40.7'') (Some ''-74.0'')) = None"
proof -
  let ?row = "film_row (Some ''N/A'') (Some ''Pier 1'') (Some ''40.7'') (Some ''-74.0'')"
  let ?d = "workbook ''Full Map List''
        [mk_row [], mk_row [], mk_row [], ?row,
         film_row (Some ''Heat'') (Some ''Pier 2'') (Some ''40.8'') (Some ''-73.9'')]"
  let ?r = "\<lparr>Film = Some ''Heat'', Location_Display_Text = ''Pier 2'',
           LATITUDE = Finite 40.8, LONGITUDE = Finite (- 73.9),
           Borough = Some ''N/A'', Neighborhood = Some ''N/A''\<rparr>"
  have h: "load_and_parse_xml_data ?d = Return_Frame [?r]"
    by (simp add: load_defs xml_defs float_defs)
  have f: "find_child (ss, ''Data'') (cells_of ?row ! 0) = Some (Element (ss, ''Data'') [] (Some ''N/A'') [])
      \<and> text_of (Element (ss, ''Data'') [] (Some ''N/A'') []) = Some ''N/A''"
    by (simp add: xml_defs)
  from sentinel_film_excluded [of ?row "Element (ss, ''Data'') [] (Some ''N/A'') []" ?d "[?r]"] f
  have "accepted ?row = None" by blast
  with h show ?thesis by blast
qed

text \<open>
  C7. When no worksheet of the document carries the name \<^verbatim>\<open>Full Map List\<close>, or the
  first worksheet of that name has no table, the extractor returns \<^verbatim>\<open>None\<close> without
  raising or reporting an exception (the code's form of the condition MissingSection),
  and the script, its caller, stops before it shows anything.
\<close>

theorem missing_section:
  assumes "(\<forall>ws\<in>set (findall_desc (ss, ''Worksheet'') d).
              get_attr ws (ss, ''Name'') \<noteq> Some ''Full Map List'')
           \<or> (\<exists>ws. find_worksheet d = Some ws \<and> find_desc (ss, ''Table'') ws = None)"
  shows "load_and_parse_xml_data d = Return_None \<and> script g mk d q c s = (Stopped, s)"
proof -
  from assms have "load_and_parse_xml_data d = Return_None"
  proof
    assume "\<forall>ws\<in>set (findall_desc (ss, ''Worksheet'') d).
              get_attr ws (ss, ''Name'') \<noteq> Some ''Full Map List''"
    then have "find_worksheet d = None" by (rule find_worksheet_None)
    then show ?thesis by (simp add: load_and_parse_xml_data_def)
  next
    assume "\<exists>ws. find_worksheet d = Some ws \<and> find_desc (ss, ''Table'') ws = None"
    then show ?thesis by (auto simp: load_and_parse_xml_data_def)
  qed
  then show ?thesis by (simp add: script_Stopped)
qed

theorem missing_section_witness:
  "load_and_parse_xml_data
     (workbook ''Sheet1''
        [mk_row [], mk_row [], mk_row [],
         film_row (Some ''Heat'') (Some ''Pier 1'') (Some ''40.7'') (Some ''-74.0'')])
     = Return_None
   \<and> load_and_parse_xml_data
       (Element (ss, ''Workbook'') [] None
          [Element (ss, ''Worksheet'') [((ss, ''Name''), ''Full Map List'')] None []])
     = Return_None"
proof -
  let ?d1 = "workbook ''Sheet1''
        [mk_row [], mk_row [], mk_row [],
         film_row (Some ''Heat'') (Some ''Pier 1'') (Some ''40.7'') (Some ''-74.0'')]"
  let ?ws = "Element (ss, ''Worksheet'') [((ss, ''Name''), ''Full Map List'')] None []"
  let ?d2 = "Element (ss, ''Workbook'') [] None [?ws]"
  have h1: "\<forall>ws\<in>set (findall_desc (ss, ''Worksheet'') ?d1).
              get_attr ws (ss, ''Name'') \<noteq> Some ''Full Map List''"
    by (simp add: xml_defs)
  have h2: "\<exists>ws. find_worksheet ?d2 = Some ws \<and> find_desc (ss, ''Table'') ws = None"
    by (simp add: find_worksheet_def xml_defs)
  from missing_section [of ?d1] h1 missing_section [of ?d2] h2 show ?thesis by blast
qed

text \<open>
  C8. The first three rows of the table are skipped whatever they hold: a document whose
  table, if it has one, has three rows or fewer yields \<^verbatim>\<open>None\<close> (the code's form of
  the condition EmptyResult) without raising or reporting an exception, and two documents
  whose tables agree from the fourth row on yield the same result.
\<close>

theorem header_rows_skipped:
  "((\<forall>t. find_table d = Some t \<longrightarrow> length (findall_desc (ss, ''Row'') t) \<le> 3)
      \<longrightarrow> load_and_parse_xml_data d = Return_None)
   \<and> (find_table d = Some t \<and> find_table d' = Some t'
        \<and> drop 3 (findall_desc (ss, ''Row'') t') = drop 3 (findall_desc (ss, ''Row'') t)
      \<longrightarrow> load_and_parse_xml_data d' = load_and_parse_xml_data d)"
  by (auto simp: load_eq_table load_table_drop split: option.splits)

theorem header_rows_skipped_witness:
  "load_and_parse_xml_data
     (workbook ''Full Map List''
        [film_row (Some ''Heat'') (Some ''Pier 1'') (Some ''40.7'') (Some ''-74.0''),
         film_row (Some ''Jaws'') (Some ''Pier 2'') (Some ''40.8'') (Some ''-74.1''),
         film_row (Some ''Big'') (Some ''Pier 3'') (Some ''40.9'') (Some ''-74.2'')])
     = Return_None
   \<and> load_and_parse_xml_data
       (workbook ''Full Map List''
          [mk_row [], mk_row [], mk_row [],
           film_row (Some ''Tootsie'') (Some ''Pier 4'') (Some ''41'') (Some ''-74.3'')])
     = load_and_parse_xml_data
       (workbook ''Full Map List''
          [film_row (Some ''Heat'') (Some ''Pier 1'') (Some ''40.7'') (Some ''-74.0''),
           film_row (Some ''Jaws'') (Some ''Pier 2'') (Some ''40.8'') (Some ''-74.1''),
           film_row (Some ''Big'') (Some ''Pier 3'') (Some ''40.9'') (Some ''-74.2''),
           film_row (Some ''Tootsie'') (Some ''Pier 4'') (Some ''41'') (Some ''-74.3'')])"
proof -
  let ?a = "film_row (Some ''Heat'') (Some ''Pier 1'') (Some ''40.7'') (Some ''-74.0'')"
  let ?b = "film_row (Some ''Jaws'') (Some ''Pier 2'') (Some ''40.8'') (Some ''-74.1'')"
  let ?c = "film_row (Some ''Big'') (Some ''Pier 3'') (Some ''40.9'') (Some ''-74.2'')"
  let ?x = "film_row (Some ''Tootsie'') (Some ''Pier 4'') (Some ''41'') (Some ''-74.3'')"
  have e: "drop 3 (findall_desc (ss, ''Row'') (Element (ss, ''Table'') [] None [mk_row [], mk_row [], mk_row [], ?x]))
         = drop 3 (findall_desc (ss, ''Row'') (Element (ss, ''Table'') [] None [?a, ?b, ?c, ?x]))"
    by (simp add: xml_defs)
  let ?h = "[mk_row [], mk_row [], mk_row [], ?x]"
  have l: "\<forall>t. find_table (workbook ''Full Map List'' [?a, ?b, ?c]) = Some t
             \<longrightarrow> length (findall_desc (ss, ''Row'') t) \<le> 3"
    by (simp add: find_table_workbook findall_desc_def film_row_def mk_row_def data_cell_def
        blank_cell_def)
  from header_rows_skipped [of "workbook ''Full Map List'' [?a, ?b, ?c]"] l
    header_rows_skipped [of "workbook ''Full Map List'' [?a, ?b, ?c, ?x]"
      "Element (ss, ''Table'') [] None [?a, ?b, ?c, ?x]"
      "workbook ''Full Map List'' ?h" "Element (ss, ''Table'') [] None ?h"]
    find_table_workbook [of "[?a, ?b, ?c, ?x]"] find_table_workbook [of ?h] e
  show ?thesis by blast
qed

text \<open>
  C9. The records of a result are the records of the accepted data rows, in the order of
  the rows; and the data frame that the script holds after the load is that result and
  stays it: neither the search nor the rendering nor the display of the table changes it.
\<close>

theorem record_order_and_immutability:
  assumes "load_and_parse_xml_data d = Return_Frame recs"
  shows "recs = List.map_filter accepted (data_rows d)
       \<and> (\<exists>pg. fst (script g mk d q c s) = Shown pg \<and> data_df pg = recs)
       \<and> data_df (fst (search g q s pg0)) = data_df pg0
       \<and> data_df (render mk q pg0) = data_df pg0
       \<and> data_df (show_table c pg0) = data_df pg0"
proof (intro conjI)
  from assms show "recs = List.map_filter accepted (data_rows d)"
    by (rule load_frame_map_filter)
  let ?pg = "\<lparr>data_df = recs, map_center = DEFAULT_CENTER, map_zoom = DEFAULT_ZOOM,
                 markers = [], count = 0, plot_warnings = [], table = None\<rparr> :: 'a page"
  have "fst (script g mk d q c s) = Shown (show_table c (render mk q (fst (search g q s ?pg))))"
    using assms by (simp add: script_def after_load_def split: prod.splits)
  moreover have "data_df (show_table c (render mk q (fst (search g q s ?pg)))) = recs"
    by (simp add: data_df_show_table data_df_render data_df_search)
  ultimately show "\<exists>pg. fst (script g mk d q c s) = Shown pg \<and> data_df pg = recs"
    by blast
qed (rule data_df_search data_df_render data_df_show_table)+

theorem record_order_and_immutability_witness:
  "load_and_parse_xml_data
     (workbook ''Full Map List''
        [mk_row [], mk_row [], mk_row [],
         film_row (Some ''Heat'') (Some ''Pier 1'') (Some ''40.7'') (Some ''-74.0''),
         film_row (Some ''Jaws'') (Some ''Pier 2'') (Some ''abc'') (Some ''-74.1''),
         film_row (Some ''Big'') (Some ''Pier 3'') (Some ''40.9'') (Some ''-74.2'')])
     = Return_Frame
         [\<lparr>Film = Some ''Heat'', Location_Display_Text = ''Pier 1'',
           LATITUDE = Finite 40.7, LONGITUDE = Finite (- 74),
           Borough = Some ''N/A'', Neighborhood = Some ''N/A''\<rparr>,
          \<lparr>Film = Some ''Big'', Location_Display_Text = ''Pier 3'',
           LATITUDE = Finite 40.9, LONGITUDE = Finite (- 74.2),
           Borough = Some ''N/A'', Neighborhood = Some ''N/A''\<rparr>]
   \<and> (\<exists>pg. fst (script (\<lambda>n q. (Located 40.8 (- 73.9), 0.2)) (\<lambda>r. Inr (Film r))
                 (workbook ''Full Map List''
                    [mk_row [], mk_row [], mk_row [],
                     film_row (Some ''Heat'') (Some ''Pier 1'') (Some ''40.7'') (Some ''-74.0''),
                     film_row (Some ''Jaws'') (Some ''Pier 2'') (Some ''abc'') (Some ''-74.1''),
                     film_row (Some ''Big'') (Some ''Pier 3'') (Some ''40.9'') (Some ''-74.2'')])
                 ''Harlem'' True (Map.empty, \<lparr>clock = 0, requests = []\<rparr>)) = Shown pg
          \<and> data_df pg =
              [\<lparr>Film = Some ''Heat'', Location_Display_Text = ''Pier 1'',
                LATITUDE = Finite 40.7, LONGITUDE = Finite (- 74),
                Borough = Some ''N/A'', Neighborhood = Some ''N/A''\<rparr>,
               \<lparr>Film = Some ''Big'', Location_Display_Text = ''Pier 3'',
                LATITUDE = Finite 40.9, LONGITUDE = Finite (- 74.2),
                Borough = Some ''N/A'', Neighborhood = Some ''N/A''\<rparr>])"
proof -
  let ?d = "workbook ''Full Map List''
        [mk_row [], mk_row [], mk_row [],
         film_row (Some ''Heat'') (Some ''Pier 1'') (Some ''40.7'') (Some ''-74.0''),
         film_row (Some ''Jaws'') (Some ''Pier 2'') (Some ''abc'') (Some ''-74.1''),
         film_row (Some ''Big'') (Some ''Pier 3'') (Some ''40.9'') (Some ''-74.2'')]"
  let ?recs = "[\<lparr>Film = Some ''Heat'', Location_Display_Text = ''Pier 1'',
           LATITUDE = Finite 40.7, LONGITUDE = Finite (- 74),
           Borough = Some ''N/A'', Neighborhood = Some ''N/A''\<rparr>,
          \<lparr>Film = Some ''Big'', Location_Display_Text = ''Pier 3'',
           LATITUDE = Finite 40.9, LONGITUDE = Finite (- 74.2),
           Borough = Some ''N/A'', Neighborhood = Some ''N/A''\<rparr>]"
  have h: "load_and_parse_xml_data ?d = Return_Frame ?recs"
    by (simp add: load_defs xml_defs float_defs)
  from record_order_and_immutability [OF h, of "\<lambda>n q. (Located 40.8 (- 73.9), 0.2)"
      "\<lambda>r. Inr (Film r)" "''Harlem''" True "(Map.empty, \<lparr>clock = 0, requests = []\<rparr>)"] h
  show ?thesis by blast
qed

text \<open>
  C6. A row whose latitude is empty or \<^verbatim>\<open>abc\<close> is to be skipped alone, the extraction
  going on. Here the extraction is run on a document whose first data row has the latitude
  \<^verbatim>\<open>abc\<close> (then: no latitude text) and an empty \<^verbatim>\<open>Data\<close> element as location
  text, and whose second data row is in order: line 50 raises \<^verbatim>\<open>TypeError\<close>, which
  line 76 does not catch, so the whole extraction ends at line 84 and returns \<^verbatim>\<open>None\<close>,
  although the second row alone yields a record.
\<close>

theorem bad_latitude_row_with_empty_location_aborts:
  "load_and_parse_xml_data
     (workbook ''Full Map List''
        [mk_row [], mk_row [], mk_row [],
         film_row (Some ''Heat'') None (Some ''abc'') (Some ''-74.0''),
         film_row (Some ''Big'') (Some ''Pier 3'') (Some ''40.9'') (Some ''-74.2'')])
     = Error_Return_None TypeError
   \<and> load_and_parse_xml_data
       (workbook ''Full Map List''
          [mk_row [], mk_row [], mk_row [],
           film_row (Some ''Heat'') None None (Some ''-74.0''),
           film_row (Some ''Big'') (Some ''Pier 3'') (Some ''40.9'') (Some ''-74.2'')])
     = Error_Return_None TypeError
   \<and> load_and_parse_xml_data
       (workbook ''Full Map List''
          [mk_row [], mk_row [], mk_row [],
           film_row (Some ''Big'') (Some ''Pier 3'') (Some ''40.9'') (Some ''-74.2'')])
     = Return_Frame
         [\<lparr>Film = Some ''Big'', Location_Display_Text = ''Pier 3'',
           LATITUDE = Finite 40.9, LONGITUDE = Finite (- 74.2),
           Borough = Some ''N/A'', Neighborhood = Some ''N/A''\<rparr>]"
  by (simp add: load_defs xml_defs float_defs)

text \<open>
  C2. Two lookups with different queries are to send their requests at least one second
  apart. Here two lookups follow each other on a provider that answers after a tenth of a
  second, the clock starting at 0: the second request leaves at 0.1, a tenth of a second
  after the first, since line 100 gives every call a limiter of its own.
\<close>

theorem consecutive_lookups_not_spaced:
  "requests (snd (lookups (\<lambda>n q. (Located 40.8 (- 73.9), 0.1)) [''Harlem'', ''Soho'']
                    (Map.empty, \<lparr>clock = 0, requests = []\<rparr>)))
     = [(0, ''Harlem''), (0.1, ''Soho'')]"
  by (simp add: geo_defs)

text \<open>
  C3, as stated: a query of white space only returns no result without a request to the
  provider. It fails on the query of one space: the request is sent.
\<close>

theorem whitespace_query_contacts_provider_counterexample:
  "geocode_location (\<lambda>n q. (No_Match, 0.1)) '' '' \<lparr>clock = 0, requests = []\<rparr>
     = ((None, [Location_not_found '' '']), \<lparr>clock = 0.1, requests = [(0, '' '')]\<rparr>)"
  by (simp add: geo_defs)

text \<open>
  C3, amended: for the empty query the lookup returns no result at once and sends no
  request: the world after it is the world before it, with or without the cache, and the
  search of the script does not call the lookup at all.
\<close>

theorem empty_query_no_request:
  "geocode_location g [] w = ((None, []), w)
   \<and> snd (snd (cached_geocode_location g [] (cache, w))) = w
   \<and> search g [] s pg = (pg, s)"
  by (simp add: geocode_location_def cached_geocode_location_def search_def
      split: option.splits)

text \<open>
  C5. The outcome of a lookup, a missing result included, is stored under the query: when
  the same query is looked up again, after any number of other lookups, with whatever
  provider, the stored outcome comes back and cache, clock and log of requests are as
  before, so there was no request and no waiting.
\<close>

theorem repeated_lookup_cached:
  assumes "cached_geocode_location g query s = (r, s1)"
  shows "cached_geocode_location g' query (lookups g'' queries s1) = (r, lookups g'' queries s1)"
  using assms by (intro cached_hit lookups_keep) (rule cached_stores)

theorem repeated_lookup_cached_witness:
  "cached_geocode_location (\<lambda>n q. (No_Match, 0.1)) ''Atlantis''
       (Map.empty, \<lparr>clock = 0, requests = []\<rparr>)
     = ((None, [Location_not_found ''Atlantis'']),
        [''Atlantis'' \<mapsto> (None, [Location_not_found ''Atlantis''])],
        \<lparr>clock = 0.1, requests = [(0, ''Atlantis'')]\<rparr>)
   \<and> cached_geocode_location (\<lambda>n q. (Located 40.8 (- 73.9), 0.1)) ''Atlantis''
       (lookups (\<lambda>n q. (Located 40.8 (- 73.9), 0.1)) [''Soho'']
          ([''Atlantis'' \<mapsto> (None, [Location_not_found ''Atlantis''])],
           \<lparr>clock = 0.1, requests = [(0, ''Atlantis'')]\<rparr>))
     = ((None, [Location_not_found ''Atlantis'']),
        lookups (\<lambda>n q. (Located 40.8 (- 73.9), 0.1)) [''Soho'']
          ([''Atlantis'' \<mapsto> (None, [Location_not_found ''Atlantis''])],
           \<lparr>clock = 0.1, requests = [(0, ''Atlantis'')]\<rparr>))
   \<and> requests (snd (lookups (\<lambda>n q. (Located 40.8 (- 73.9), 0.1)) [''Soho'']
          ([''Atlantis'' \<mapsto> (None, [Location_not_found ''Atlantis''])],
           \<lparr>clock = 0.1, requests = [(0, ''Atlantis'')]\<rparr>)))
     = [(0, ''Atlantis''), (0.1, ''Soho'')]"
proof -
  have h: "cached_geocode_location (\<lambda>n q. (No_Match, 0.1)) ''Atlantis''
       (Map.empty, \<lparr>clock = 0, requests = []\<rparr>)
     = ((None, [Location_not_found ''Atlantis'']),
        [''Atlantis'' \<mapsto> (None, [Location_not_found ''Atlantis''])],
        \<lparr>clock = 0.1, requests = [(0, ''Atlantis'')]\<rparr>)"
    by (simp add: geo_defs)
  have r: "requests (snd (lookups (\<lambda>n q. (Located 40.8 (- 73.9), 0.1)) [''Soho'']
          ([''Atlantis'' \<mapsto> (None, [Location_not_found ''Atlantis''])],
           \<lparr>clock = 0.1, requests = [(0, ''Atlantis'')]\<rparr>)))
     = [(0, ''Atlantis''), (0.1, ''Soho'')]"
    by (simp add: geo_defs)
  from repeated_lookup_cached [OF h, of "\<lambda>n q. (Located 40.8 (- 73.9), 0.1)"
      "\<lambda>n q. (Located 40.8 (- 73.9), 0.1)" "[''Soho'']"] h r
  show ?thesis by blast
qed

end
